theory Spec2Isabelle
  imports Complex_Main
begin

section \<open>Numbers\<close>

text \<open>
  A JavaScript number is an IEEE 754 double. A finite double is modelled by its exact value,
  a rational, and every arithmetic operation of the overlay (\<open>+\<close>, \<open>-\<close>, \<open>*\<close>, \<open>/\<close>)
  returns the exact result rounded to the nearest double, a tie going to the even
  significand. The two zeros are one value; NaN, the infinities, and results whose magnitude
  would reach \<open>2^1024\<close> are left out. A decimal literal of the source is the double nearest
  to it: \<open>1.15\<close> is \<open>fl (115/100)\<close>; the literals 2, 10 and 100 are exact.
\<close>

type_synonym number = rat

definition pow2 :: "int \<Rightarrow> rat" where
  "pow2 k = (if 0 \<le> k then 2 ^ nat k else 1 / 2 ^ nat (- k))"

text \<open>
  The binary exponent of a positive magnitude \<open>a\<close>, that is the \<open>E\<close> with
  \<open>2^E \<le> a < 2^(E+1)\<close>: found by halving when \<open>1 \<le> a\<close>, and by doubling otherwise, where
  it stops at \<open>-1022\<close>, the exponent of the subnormal doubles.
\<close>

function exponent_up :: "rat \<Rightarrow> int \<Rightarrow> int" where
  "exponent_up a e = (if 2 \<le> a then exponent_up (a / 2) (e + 1) else e)"
  by pat_completeness auto
termination
proof (relation "measure (\<lambda>(a, e). nat \<lfloor>a\<rfloor>)")
  show "wf (measure (\<lambda>(a :: rat, e :: int). nat \<lfloor>a\<rfloor>))" by simp
next
  fix a :: rat and e :: int
  assume a: "2 \<le> a"
  have "a / 2 \<le> a - 1" using a by simp
  then have "\<lfloor>a / 2\<rfloor> \<le> \<lfloor>a - 1\<rfloor>" by (rule floor_mono)
  moreover have "2 \<le> \<lfloor>a\<rfloor>" using a by (simp add: le_floor_iff)
  ultimately show "((a / 2, e + 1), (a, e)) \<in> measure (\<lambda>(a, e). nat \<lfloor>a\<rfloor>)"
    by simp
qed

function exponent_down :: "rat \<Rightarrow> int \<Rightarrow> int" where
  "exponent_down a e =
     (if a < 1 \<and> - 1022 < e then exponent_down (a * 2) (e - 1) else e)"
  by pat_completeness auto
termination
  by (relation "measure (\<lambda>(a, e). nat (e + 1022))") auto

declare exponent_up.simps [simp del]

declare exponent_down.simps [simp del]

text \<open>The nearest integer, a tie going to the even one.\<close>

definition round_half_even :: "rat \<Rightarrow> int" where
  "round_half_even v =
     (if v - of_int \<lfloor>v\<rfloor> < 1 / 2 then \<lfloor>v\<rfloor>
      else if 1 / 2 < v - of_int \<lfloor>v\<rfloor> then \<lfloor>v\<rfloor> + 1
      else if even \<lfloor>v\<rfloor> then \<lfloor>v\<rfloor> else \<lfloor>v\<rfloor> + 1)"

text \<open>
  \<open>fl q\<close>, the double nearest to \<open>q\<close>: the magnitude is counted in units of
  \<open>2^(E - 52)\<close>, which leaves a significand of 53 bits, and the count is rounded.
\<close>

definition fl :: "rat \<Rightarrow> number" where
  "fl q =
     (if q = 0 then 0
      else sgn q
        * of_int (round_half_even
            (\<bar>q\<bar> / pow2 ((if 1 \<le> \<bar>q\<bar> then exponent_up \<bar>q\<bar> 0
                             else exponent_down \<bar>q\<bar> 0) - 52)))
        * pow2 ((if 1 \<le> \<bar>q\<bar> then exponent_up \<bar>q\<bar> 0 else exponent_down \<bar>q\<bar> 0) - 52))"

text \<open>The operators \<open>+\<close>, \<open>-\<close>, \<open>*\<close> and \<open>/\<close> on numbers.\<close>

definition fadd :: "number \<Rightarrow> number \<Rightarrow> number" where
  "fadd a b = fl (a + b)"

definition fsub :: "number \<Rightarrow> number \<Rightarrow> number" where
  "fsub a b = fl (a - b)"

definition fmul :: "number \<Rightarrow> number \<Rightarrow> number" where
  "fmul a b = fl (a * b)"

definition fdiv :: "number \<Rightarrow> number \<Rightarrow> number" where
  "fdiv a b = fl (a / b)"

text \<open>
  \<open>Math.round\<close>: the nearest integer, a tie going towards plus infinity. It is exact: the
  integer nearest to a double is a double.
\<close>

definition Math_round :: "number \<Rightarrow> number" where
  "Math_round v = of_int \<lfloor>v + 1 / 2\<rfloor>"

definition Math_max :: "number \<Rightarrow> number \<Rightarrow> number" where
  "Math_max a b = max a b"

section \<open>Data model\<close>

text \<open>\<open>LayoutRectangle\<close> of react-native: a measured rectangle, and the layout of the tip.\<close>

record LayoutRectangle =
  x :: number
  y :: number
  width :: number
  height :: number

text \<open>
  Modelled from the spec: the enumerations \<open>Shape\<close>, \<open>Align\<close>, \<open>Motion\<close> and \<open>Position\<close>,
  the step type \<open>TourStep\<close> with its \<open>RectangleProps\<close> and \<open>RenderProps\<close>, and the context
  type \<open>SpotlightTourCtx\<close> are declared in \<open>lib/SpotlightTour.context\<close>, which is imported by
  the overlay but is not among the sources. The spec (section 3) gives their members:
  shape \<open>SPOTLIGHT | RECTANGLE\<close>, alignment \<open>SPOT | CENTER\<close>, motion \<open>SLIDING | FADING\<close>,
  position \<open>TOP | BOTTOM | LEFT | RIGHT\<close>, shape properties
  \<open>{borderWidth, horizontalRadius, verticalRadius}\<close>, and the render argument
  \<open>{currentIndex, isFirst, isLast, next, previous, stop}\<close>. An attribute that a step may
  omit is an \<open>option\<close>, \<open>None\<close> standing for \<open>undefined\<close>.
\<close>

datatype Shape = SPOTLIGHT | RECTANGLE

datatype Align = SPOT | CENTER

datatype Motion = SLIDING | FADING

datatype Position = BOTTOM | LEFT | RIGHT | TOP

text \<open>
  The value found in \<open>tourStep.position\<close> when the overlay runs: a member of the enumeration,
  or any other JavaScript value (the \<open>switch\<close> statements compare it with the four members
  and have no \<open>default\<close> branch, so all other values behave alike).
\<close>

datatype position_value = Enumerated Position | Unenumerated

record RectangleProps =
  borderWidth :: "number option"
  horizontalRadius :: "number option"
  verticalRadius :: "number option"

text \<open>
  The three callbacks of the tour context are opaque to the overlay, which only passes them
  on or calls them; a call is recorded by its name.
\<close>

datatype tour_call = Call_next | Call_previous | Call_stop

record RenderProps =
  render_current :: nat
  isFirst :: bool
  isLast :: bool
  render_next :: tour_call
  render_previous :: tour_call
  render_stop :: tour_call

record 'c TourStep =
  alignTo :: "Align option"
  motion :: "Motion option"
  position :: position_value
  render :: "RenderProps \<Rightarrow> 'c"
  shape :: "Shape option"
  shapeProperties :: "RectangleProps option"

record 'c SpotlightTourCtx =
  current :: "nat option"
  spot :: "LayoutRectangle option"
  steps :: "'c TourStep list"

datatype ColorValue = ColorString string | ColorNumber number | ColorRgba "number list"

datatype OpacityValue = OpacityNumber number | OpacityString string

record 'c TourOverlayProps =
  color :: "ColorValue option"
  opacity :: "OpacityValue option"
  tour :: "'c SpotlightTourCtx"
  shouldContinueOnBackdropPress :: "bool option"

text \<open>A style value is a string such as \<open>"2%"\<close> or a number of units.\<close>

datatype DimensionValue = DimString string | DimNumber number

text \<open>The style objects built by the two placement functions.\<close>

record ViewStyle =
  left :: number
  top' :: number
  marginTop :: "DimensionValue option"
  marginBottom :: "DimensionValue option"
  marginLeft :: "DimensionValue option"
  marginRight :: "DimensionValue option"

text \<open>
  The state held by the hooks of the component: the step being shown, the style of the tip,
  and the current values of the four animated values.
\<close>

record 'c OverlayState =
  tourStep :: "'c TourStep option"
  tipStyle :: "ViewStyle option"
  radius :: number
  center :: "number \<times> number"
  rectCoordinates :: "number \<times> number"
  componentOpacity :: number

text \<open>
  The mask element: \<open>AnimatedCircle r cx cy opacity\<close> and
  \<open>AnimatedRect x y opacity width height rx ry\<close>; the opacity attribute is only present
  for the fading motion.
\<close>

datatype MaskElement =
    AnimatedCircle number number number "number option"
  | AnimatedRect number number "number option" number number number number

record 'c Rendered =
  onPress :: "tour_call list"
  viewBox :: "number \<times> number"
  maskElement :: MaskElement
  rect_fill :: ColorValue
  rect_opacity :: OpacityValue
  tipView_style :: "ViewStyle option \<times> number"
  tipView_children :: 'c

datatype js_error = TypeError

section \<open>The overlay\<close>

text \<open>The module constant \<open>shapeProperties\<close>, used when a step has no shape properties.\<close>

definition shapeProperties_const :: RectangleProps where
  "shapeProperties_const =
     \<lparr>borderWidth = Some 0, horizontalRadius = Some 0, verticalRadius = Some 0\<rparr>"

text \<open>\<open>const isLastStep = current === steps.length - 1\<close>; the length may be 0.\<close>

definition isLastStep :: "nat option \<Rightarrow> 'a list \<Rightarrow> bool" where
  "isLastStep cur stps =
     (case cur of None \<Rightarrow> False | Some c \<Rightarrow> int c = int (length stps) - 1)"

text \<open>\<open>const shape = tourStep.shape ?? Shape.SPOTLIGHT\<close>\<close>

definition shape_of :: "'c TourStep \<Rightarrow> Shape" where
  "shape_of stp = (case shape stp of None \<Rightarrow> SPOTLIGHT | Some s \<Rightarrow> s)"

text \<open>
  The destructuring of \<open>tourStep.shapeProperties ?? shapeProperties\<close> with the defaults
  \<open>borderWidth = 0\<close>, \<open>horizontalRadius = 0\<close>, \<open>verticalRadius = 0\<close>.
\<close>

definition shapeProperties_of :: "'c TourStep \<Rightarrow> RectangleProps" where
  "shapeProperties_of stp =
     (case shapeProperties stp of None \<Rightarrow> shapeProperties_const | Some p \<Rightarrow> p)"

definition borderWidth_of :: "'c TourStep \<Rightarrow> number" where
  "borderWidth_of stp =
     (case borderWidth (shapeProperties_of stp) of None \<Rightarrow> 0 | Some b \<Rightarrow> b)"

definition horizontalRadius_of :: "'c TourStep \<Rightarrow> number" where
  "horizontalRadius_of stp =
     (case horizontalRadius (shapeProperties_of stp) of None \<Rightarrow> 0 | Some h \<Rightarrow> h)"

definition verticalRadius_of :: "'c TourStep \<Rightarrow> number" where
  "verticalRadius_of stp =
     (case verticalRadius (shapeProperties_of stp) of None \<Rightarrow> 0 | Some v \<Rightarrow> v)"

text \<open>The geometry of the circle, from the spot.\<close>

definition r :: "LayoutRectangle \<Rightarrow> number" where
  "r sp = fmul (fdiv (Math_max (width sp) (height sp)) 2) (fl (115 / 100))"

definition cx :: "LayoutRectangle \<Rightarrow> number" where
  "cx sp = fadd (x sp) (fdiv (width sp) 2)"

definition cy :: "LayoutRectangle \<Rightarrow> number" where
  "cy sp = fadd (y sp) (fdiv (height sp) 2)"

text \<open>The geometry of the rectangle, from the spot and the border width.\<close>

definition rectWidth :: "LayoutRectangle \<Rightarrow> number \<Rightarrow> number" where
  "rectWidth sp bw = fadd (width sp) (fmul 2 bw)"

definition rectHeight :: "LayoutRectangle \<Rightarrow> number \<Rightarrow> number" where
  "rectHeight sp bw = fadd (height sp) (fmul 2 bw)"

definition rectX :: "LayoutRectangle \<Rightarrow> number \<Rightarrow> number" where
  "rectX sp bw = fsub (x sp) bw"

definition rectY :: "LayoutRectangle \<Rightarrow> number \<Rightarrow> number" where
  "rectY sp bw = fsub (y sp) bw"

text \<open>\<open>const motion = tourStep.motion ?? Motion.SLIDING\<close>\<close>

definition motion_of :: "'c TourStep \<Rightarrow> Motion" where
  "motion_of stp = (case motion stp of None \<Rightarrow> SLIDING | Some m \<Rightarrow> m)"

text \<open>
  \<open>circleProperties\<close> and \<open>rectProperties\<close> spread into the mask element selected by the
  shape: the sliding motion draws the animated values, the fading motion the geometry of
  the spot with the animated opacity.
\<close>

definition MaskElement_of :: "LayoutRectangle \<Rightarrow> 'c TourStep \<Rightarrow> ('c, 'z) OverlayState_scheme \<Rightarrow> MaskElement" where
  "MaskElement_of sp stp st =
     (case shape_of stp of
        SPOTLIGHT \<Rightarrow>
          (case motion_of stp of
             SLIDING \<Rightarrow> AnimatedCircle (radius st) (fst (center st)) (snd (center st)) None
           | FADING \<Rightarrow> AnimatedCircle (r sp) (cx sp) (cy sp) (Some (componentOpacity st)))
      | RECTANGLE \<Rightarrow>
          (case motion_of stp of
             SLIDING \<Rightarrow>
               AnimatedRect (fst (rectCoordinates st)) (snd (rectCoordinates st)) None
                 (rectWidth sp (borderWidth_of stp)) (rectHeight sp (borderWidth_of stp))
                 (horizontalRadius_of stp) (verticalRadius_of stp)
           | FADING \<Rightarrow>
               AnimatedRect (rectX sp (borderWidth_of stp)) (rectY sp (borderWidth_of stp))
                 (Some (componentOpacity st))
                 (rectWidth sp (borderWidth_of stp)) (rectHeight sp (borderWidth_of stp))
                 (horizontalRadius_of stp) (verticalRadius_of stp)))"



text \<open>\<open>const align = tourStep.alignTo ?? Align.SPOT\<close>, in both placement functions.\<close>

definition align_of :: "'c TourStep \<Rightarrow> Align" where
  "align_of stp = (case alignTo stp of None \<Rightarrow> SPOT | Some a \<Rightarrow> a)"

text \<open>
  \<open>backdropPressHandler\<close>: the calls made when the backdrop is pressed, in order; the
  empty list is the early \<open>return\<close>.
\<close>

definition backdropPressHandler :: "bool \<Rightarrow> bool \<Rightarrow> tour_call list" where
  "backdropPressHandler shouldContinue lastStep =
     (if \<not> shouldContinue then []
      else if lastStep then [Call_stop] else [Call_next])"

text \<open>
  \<open>getSpotlightTipStyles\<close>. The helper \<open>vwDP\<close> of \<open>helpers/responsive\<close> is not among
  the sources and is a parameter; \<open>vwDP(100)\<close> is the width of the viewport. A \<open>switch\<close>
  that matches no case returns \<open>undefined\<close>, here \<open>None\<close>.
\<close>

definition getSpotlightTipStyles ::
  "(number \<Rightarrow> number) \<Rightarrow> LayoutRectangle \<Rightarrow> 'c TourStep \<Rightarrow> LayoutRectangle \<Rightarrow> ViewStyle option" where
  "getSpotlightTipStyles vwDP sp stp tipLayout =
     (let tipMargin = ''2%''; align = align_of stp in
      case position stp of
        Enumerated BOTTOM \<Rightarrow> Some
          \<lparr>left = (if align = SPOT
                   then Math_round (fsub (cx sp) (fdiv (width tipLayout) 2))
                   else Math_round (fdiv (fsub (vwDP 100) (width tipLayout)) 2)),
           top' = Math_round (fadd (cy sp) (r sp)),
           marginTop = Some (DimString tipMargin), marginBottom = None,
           marginLeft = None, marginRight = None\<rparr>
      | Enumerated TOP \<Rightarrow> Some
          \<lparr>left = (if align = SPOT
                   then Math_round (fsub (cx sp) (fdiv (width tipLayout) 2))
                   else Math_round (fdiv (fsub (vwDP 100) (width tipLayout)) 2)),
           top' = Math_round (fsub (fsub (cy sp) (r sp)) (height tipLayout)),
           marginTop = None, marginBottom = Some (DimString tipMargin),
           marginLeft = None, marginRight = None\<rparr>
      | Enumerated LEFT \<Rightarrow> Some
          \<lparr>left = Math_round (fsub (fsub (cx sp) (r sp)) (width tipLayout)),
           top' = Math_round (fsub (cy sp) (fdiv (height tipLayout) 2)),
           marginTop = None, marginBottom = None,
           marginLeft = None, marginRight = Some (DimString tipMargin)\<rparr>
      | Enumerated RIGHT \<Rightarrow> Some
          \<lparr>left = Math_round (fadd (cx sp) (r sp)),
           top' = Math_round (fsub (cy sp) (fdiv (height tipLayout) 2)),
           marginTop = None, marginBottom = None,
           marginLeft = Some (DimString tipMargin), marginRight = None\<rparr>
      | Unenumerated \<Rightarrow> None)"

text \<open>
  \<open>getRectangleTipStyles\<close>; its local \<open>center\<close> is the pair \<open>center_x\<close>, \<open>center_y\<close>,
  both rounded before they are used.
\<close>

definition getRectangleTipStyles ::
  "(number \<Rightarrow> number) \<Rightarrow> LayoutRectangle \<Rightarrow> 'c TourStep \<Rightarrow> LayoutRectangle \<Rightarrow> ViewStyle option" where
  "getRectangleTipStyles vwDP sp stp tipLayout =
     (let tipMargin = (10 :: number); align = align_of stp; bw = borderWidth_of stp;
          center_x = Math_round (fadd (rectX sp bw) (fdiv (rectWidth sp bw) 2));
          center_y = Math_round (fadd (rectY sp bw) (fdiv (rectHeight sp bw) 2)) in
      case position stp of
        Enumerated BOTTOM \<Rightarrow> Some
          \<lparr>left = (if align = SPOT
                   then Math_round (fsub center_x (fdiv (width tipLayout) 2))
                   else Math_round (fdiv (fsub (vwDP 100) (width tipLayout)) 2)),
           top' = Math_round (fadd (rectY sp bw) (rectHeight sp bw)),
           marginTop = Some (DimNumber tipMargin), marginBottom = None,
           marginLeft = None, marginRight = None\<rparr>
      | Enumerated TOP \<Rightarrow> Some
          \<lparr>left = (if align = SPOT
                   then Math_round (fsub center_x (fdiv (width tipLayout) 2))
                   else Math_round (fdiv (fsub (vwDP 100) (width tipLayout)) 2)),
           top' = Math_round (fsub (fsub (rectY sp bw) (height tipLayout)) tipMargin),
           marginTop = None, marginBottom = Some (DimNumber tipMargin),
           marginLeft = None, marginRight = None\<rparr>
      | Enumerated LEFT \<Rightarrow> Some
          \<lparr>left = Math_round (fsub (rectX sp bw) (width tipLayout)),
           top' = Math_round (fsub center_y (fdiv (height tipLayout) 2)),
           marginTop = None, marginBottom = None,
           marginLeft = None, marginRight = Some (DimNumber tipMargin)\<rparr>
      | Enumerated RIGHT \<Rightarrow> Some
          \<lparr>left = Math_round (fadd (rectX sp bw) (rectWidth sp bw)),
           top' = Math_round (fsub center_y (fdiv (height tipLayout) 2)),
           marginTop = None, marginBottom = None,
           marginLeft = Some (DimNumber tipMargin), marginRight = None\<rparr>
      | Unenumerated \<Rightarrow> None)"

text \<open>
  \<open>measureTip\<close>, the layout callback of the tip: the style of the current shape is stored
  with \<open>setTipStyle\<close>.
\<close>

definition measureTip ::
  "(number \<Rightarrow> number) \<Rightarrow> LayoutRectangle \<Rightarrow> 'c TourStep \<Rightarrow> LayoutRectangle
     \<Rightarrow> ('c, 'z) OverlayState_scheme \<Rightarrow> ('c, 'z) OverlayState_scheme" where
  "measureTip vwDP sp stp layout st =
     st\<lparr>tipStyle :=
       (case shape_of stp of
          SPOTLIGHT \<Rightarrow> getSpotlightTipStyles vwDP sp stp layout
        | RECTANGLE \<Rightarrow> getRectangleTipStyles vwDP sp stp layout)\<rparr>"

text \<open>The initial values of the \<open>useState\<close> hooks; \<open>steps[current]\<close> may be out of range.\<close>

definition steps_at :: "'c TourStep list \<Rightarrow> nat \<Rightarrow> 'c TourStep option" where
  "steps_at stps c = (if c < length stps then Some (stps ! c) else None)"

definition useState_initial :: "'c TourStep list \<Rightarrow> nat \<Rightarrow> 'c OverlayState" where
  "useState_initial stps c =
     \<lparr>tourStep = steps_at stps c, tipStyle = None, radius = 0, center = (0, 0),
      rectCoordinates = (0, 0), componentOpacity = 0\<rparr>"

text \<open>
  The effect run when \<open>spot\<close> or \<open>current\<close> changes: \<open>setTourStep(steps[current])\<close> at
  once, and \<open>setTipStyle(undefined)\<close> in the timeout that starts \<open>moveIn\<close>.
\<close>

definition useEffect_setTourStep ::
  "'c TourStep list \<Rightarrow> nat \<Rightarrow> ('c, 'z) OverlayState_scheme \<Rightarrow> ('c, 'z) OverlayState_scheme" where
  "useEffect_setTourStep stps c st = st\<lparr>tourStep := steps_at stps c\<rparr>"

definition useEffect_setTimeout ::
  "('c, 'z) OverlayState_scheme \<Rightarrow> ('c, 'z) OverlayState_scheme" where
  "useEffect_setTimeout st = st\<lparr>tipStyle := None\<rparr>"

text \<open>
  \<open>hideTip\<close>: a timing animation of \<open>componentOpacity\<close> to 0 in 200 ms is started; its end
  callback receives \<open>{ finished }\<close> from the animation primitive and settles the promise.
  \<open>reject()\<close> is called without a reason.
\<close>

record EndResult =
  finished :: bool

datatype settlement = Resolved | Rejected

record TimingConfig =
  duration :: nat
  toValue :: number

definition hideTip_timing :: TimingConfig where
  "hideTip_timing = \<lparr>duration = 200, toValue = 0\<rparr>"

definition hideTip :: "EndResult \<Rightarrow> settlement" where
  "hideTip res = (if finished res then Resolved else Rejected)"

text \<open>
  One render of \<open>TourOverlay\<close> from its props and the state of its hooks: \<open>Inr None\<close> is
  \<open>return null\<close>, \<open>Inl TypeError\<close> the property access on an undefined \<open>tourStep\<close>. The
  helper \<open>vhDP\<close> is a parameter like \<open>vwDP\<close>.
\<close>

definition TourOverlay ::
  "(number \<Rightarrow> number) \<Rightarrow> (number \<Rightarrow> number) \<Rightarrow> 'c TourOverlayProps \<Rightarrow> 'c OverlayState
     \<Rightarrow> js_error + 'c Rendered option" where
  "TourOverlay vwDP vhDP props st =
     (let color' = (case color props of None \<Rightarrow> ColorString ''black'' | Some c \<Rightarrow> c);
          opacity' = (case opacity props of None \<Rightarrow> OpacityNumber (45 / 100) | Some p \<Rightarrow> p);
          shouldContinue =
            (case shouldContinueOnBackdropPress props of None \<Rightarrow> False | Some b \<Rightarrow> b);
          lastStep = isLastStep (current (tour props)) (steps (tour props)) in
      case spot (tour props) of
        None \<Rightarrow> Inr None
      | Some sp \<Rightarrow>
         (case current (tour props) of
            None \<Rightarrow> Inr None
          | Some c \<Rightarrow>
             (case tourStep st of
                None \<Rightarrow> Inl TypeError
              | Some stp \<Rightarrow> Inr (Some
                  \<lparr>onPress = backdropPressHandler shouldContinue lastStep,
                   viewBox = (vwDP 100, vhDP 100),
                   maskElement = MaskElement_of sp stp st,
                   rect_fill = color',
                   rect_opacity = opacity',
                   tipView_style = (tipStyle st, componentOpacity st),
                   tipView_children = render stp
                     \<lparr>render_current = c, isFirst = (c = 0), isLast = lastStep,
                      render_next = Call_next, render_previous = Call_previous,
                      render_stop = Call_stop\<rparr>\<rparr>))))"

section \<open>A worked configuration\<close>

text \<open>
  The configuration of the spec's placement example: a spot of 50 by 50 at (100, 200), a
  tip of 120 by 40, a viewport 360 wide and 640 high, one step placed at the bottom.
\<close>

definition example_spot :: LayoutRectangle where
  "example_spot = \<lparr>x = 100, y = 200, width = 50, height = 50\<rparr>"

definition example_tip :: LayoutRectangle where
  "example_tip = \<lparr>x = 0, y = 0, width = 120, height = 40\<rparr>"

definition example_vwDP :: "number \<Rightarrow> number" where
  "example_vwDP p = 360 * p / 100"

definition example_vhDP :: "number \<Rightarrow> number" where
  "example_vhDP p = 640 * p / 100"

definition example_step :: "unit TourStep" where
  "example_step =
     \<lparr>alignTo = Some SPOT, motion = Some FADING, position = Enumerated BOTTOM,
      render = (\<lambda>_. ()), shape = Some SPOTLIGHT, shapeProperties = None\<rparr>"

definition example_props :: "unit TourOverlayProps" where
  "example_props =
     \<lparr>color = None, opacity = None,
      tour = \<lparr>current = Some 0, spot = Some example_spot, steps = [example_step]\<rparr>,
      shouldContinueOnBackdropPress = Some True\<rparr>"

definition example_state :: "unit OverlayState" where
  "example_state = useState_initial [example_step] 0"

text \<open>A spot of odd width, whose centre is not an integer, and a tip of odd width.\<close>

definition odd_spot :: LayoutRectangle where
  "odd_spot = \<lparr>x = 100, y = 0, width = 21, height = 20\<rparr>"

definition odd_tip :: LayoutRectangle where
  "odd_tip = \<lparr>x = 0, y = 0, width = 41, height = 10\<rparr>"

text \<open>A low and wide spot, for which the radius is not a whole number of halves.\<close>

definition wide_spot :: LayoutRectangle where
  "wide_spot = \<lparr>x = 0, y = 0, width = 100, height = 10\<rparr>"

text \<open>
  Measures with decimal fractions, each the double nearest to the decimal: a spot at
  \<open>x = 19.9\<close>, a tip 16.2 wide, a border width of 0.2, and a spot 143.6 wide and high with
  a border width of 0.1.
\<close>

definition decimal_spot :: LayoutRectangle where
  "decimal_spot = \<lparr>x = fl (199 / 10), y = 0, width = 10, height = 10\<rparr>"

definition decimal_tip :: LayoutRectangle where
  "decimal_tip = \<lparr>x = 0, y = 0, width = fl (162 / 10), height = 10\<rparr>"

definition decimal_step :: "unit TourStep" where
  "decimal_step =
     \<lparr>alignTo = None, motion = None, position = Enumerated LEFT,
      render = (\<lambda>_. ()), shape = Some RECTANGLE,
      shapeProperties = Some \<lparr>borderWidth = Some (fl (2 / 10)), horizontalRadius = None,
                               verticalRadius = None\<rparr>\<rparr>"


section \<open>Auxiliary facts\<close>

lemma Math_round_Ints: "Math_round v \<in> \<int>"
  by (simp add: Math_round_def)

lemma floor_numeral_quotient:
  "\<lfloor>(numeral a :: rat) / numeral b\<rfloor> = numeral a div numeral b"
  using floor_divide_of_int_eq [of "numeral a" "numeral b", where ?'a = rat] by simp

text \<open>The equations that evaluate the arithmetic on numerals.\<close>

lemmas fl_eval =
  fl_def pow2_def round_half_even_def exponent_up.simps exponent_down.simps
  floor_numeral_quotient fadd_def fsub_def fmul_def fdiv_def Math_round_def Math_max_def

lemmas geometry_defs =
  r_def cx_def cy_def rectWidth_def rectHeight_def rectX_def rectY_def

lemmas step_defs =
  shape_of_def motion_of_def align_of_def shapeProperties_of_def shapeProperties_const_def
  borderWidth_of_def horizontalRadius_of_def verticalRadius_of_def

lemmas example_defs =
  example_spot_def example_tip_def example_vwDP_def example_vhDP_def example_step_def
  example_props_def example_state_def useState_initial_def steps_at_def


lemma r_example_spot: "r example_spot = 8092405580431359 / 281474976710656"
  by (simp add: r_def example_spot_def fl_eval)

lemma center_example_spot: "cx example_spot = 125" "cy example_spot = 225"
  by (simp_all add: cx_def cy_def example_spot_def fl_eval)

lemma example_step_fields:
  "align_of example_step = SPOT" "position example_step = Enumerated BOTTOM"
  "borderWidth_of example_step = 0"
  by (simp_all add: example_step_def step_defs)

lemma example_rect: "rectX example_spot 0 = 100" "rectY example_spot 0 = 200"
  "rectWidth example_spot 0 = 50" "rectHeight example_spot 0 = 50"
  by (simp_all add: geometry_defs example_spot_def fl_eval)

lemma example_arith:
  "fsub 125 (fdiv 120 2) = 65"
  "fadd 225 (8092405580431359 / 281474976710656) = 1015 / 4"
  "fadd 100 (fdiv 50 2) = 125"
  "fadd 200 (fdiv 50 2) = 225"
  "fadd 200 50 = 250"
  "fdiv (fsub 360 120) 2 = 120"
  by (simp_all add: fl_eval)

lemmas round_eval = Math_round_def floor_numeral_quotient

lemma example_spotlight_style:
  "getSpotlightTipStyles example_vwDP example_spot example_step example_tip =
     Some \<lparr>left = 65, top' = 254, marginTop = Some (DimString ''2%''), marginBottom = None,
           marginLeft = None, marginRight = None\<rparr>"
  by (simp add: getSpotlightTipStyles_def example_step_fields r_example_spot
      center_example_spot example_tip_def example_arith round_eval)

lemma example_rectangle_style:
  "getRectangleTipStyles example_vwDP example_spot example_step example_tip =
     Some \<lparr>left = 65, top' = 250, marginTop = Some (DimNumber 10), marginBottom = None,
           marginLeft = None, marginRight = None\<rparr>"
  by (simp add: getRectangleTipStyles_def example_step_fields example_rect
      example_tip_def example_arith round_eval)

lemma example_overlay:
  "TourOverlay example_vwDP example_vhDP example_props example_state =
     Inr (Some \<lparr>onPress = [Call_stop], viewBox = (360, 640),
                maskElement =
                  AnimatedCircle (8092405580431359 / 281474976710656) 125 225 (Some 0),
                rect_fill = ColorString ''black'', rect_opacity = OpacityNumber (45 / 100),
                tipView_style = (None, 0), tipView_children = ()\<rparr>)"
proof -
  have mask: "MaskElement_of example_spot example_step example_state
      = AnimatedCircle (r example_spot) (cx example_spot) (cy example_spot) (Some 0)"
    by (simp add: MaskElement_of_def example_step_def example_state_def useState_initial_def
        shape_of_def motion_of_def)
  have state: "tourStep example_state = Some example_step" "tipStyle example_state = None"
    "componentOpacity example_state = 0"
    by (simp_all add: example_state_def useState_initial_def steps_at_def)
  show ?thesis
    by (simp add: TourOverlay_def example_props_def state mask r_example_spot
        center_example_spot backdropPressHandler_def isLastStep_def example_vwDP_def
        example_vhDP_def)
qed

section \<open>Geometry of the spotlight\<close>


section \<open>Geometry of the rectangle\<close>


section \<open>Placement of the tip\<close>

text \<open>
  C3 (as amended). The placement of the tip around the circle follows the table of the
  spotlight policy for every spot, size of the tip and alignment, an omitted alignment
  counting as \<open>SPOT\<close>. Each entry of the table is computed in double arithmetic, in the
  order written, and is the value that is rounded (the value "before rounding"): at the
  bottom, left is \<open>center.x - tipW/2\<close> when aligned to the spot and \<open>(W - tipW)/2\<close>
  otherwise, top is \<open>center.y + r\<close>, with a margin of 2% on the side of the spot; at the
  top, the same left and top \<open>center.y - r - tipH\<close>, with the 2% margin; on the left, left
  is \<open>center.x - r - tipW\<close> and top \<open>center.y - tipH/2\<close>; on the right, left is
  \<open>center.x + r\<close> and top \<open>center.y - tipH/2\<close>. For the spot 50 by 50 at (100, 200), the
  tip 120 by 40 at the bottom aligned to the spot and a viewport 360 wide:
  \<open>r = 28.749999999999996\<close>, centre (125, 225), left 65 and top 253.75 before rounding (the
  style holds 65 and 254); aligned to the centre of the viewport, left is 120. For the spot
  100 by 10 at (0, 0) the top is 62.
\<close>

theorem spotlight_tip_placement:
  "(let center_x = fadd (x sp) (fdiv (width sp) 2);
        center_y = fadd (y sp) (fdiv (height sp) 2);
        rad = fmul (fdiv (max (width sp) (height sp)) 2) (fl (115 / 100));
        lft = (if al = None \<or> al = Some SPOT then fsub center_x (fdiv (width tip) 2)
               else fdiv (fsub (vwDP 100) (width tip)) 2)
    in getSpotlightTipStyles vwDP sp (stp\<lparr>alignTo := al, position := Enumerated BOTTOM\<rparr>) tip =
         Some \<lparr>left = Math_round lft, top' = Math_round (fadd center_y rad),
               marginTop = Some (DimString ''2%''), marginBottom = None,
               marginLeft = None, marginRight = None\<rparr>
       \<and> getSpotlightTipStyles vwDP sp (stp\<lparr>alignTo := al, position := Enumerated TOP\<rparr>) tip =
         Some \<lparr>left = Math_round lft,
               top' = Math_round (fsub (fsub center_y rad) (height tip)),
               marginTop = None, marginBottom = Some (DimString ''2%''),
               marginLeft = None, marginRight = None\<rparr>
       \<and> getSpotlightTipStyles vwDP sp (stp\<lparr>alignTo := al, position := Enumerated LEFT\<rparr>) tip =
         Some \<lparr>left = Math_round (fsub (fsub center_x rad) (width tip)),
               top' = Math_round (fsub center_y (fdiv (height tip) 2)),
               marginTop = None, marginBottom = None,
               marginLeft = None, marginRight = Some (DimString ''2%'')\<rparr>
       \<and> getSpotlightTipStyles vwDP sp (stp\<lparr>alignTo := al, position := Enumerated RIGHT\<rparr>) tip =
         Some \<lparr>left = Math_round (fadd center_x rad),
               top' = Math_round (fsub center_y (fdiv (height tip) 2)),
               marginTop = None, marginBottom = None,
               marginLeft = Some (DimString ''2%''), marginRight = None\<rparr>)
   \<and> r example_spot = 8092405580431359 / 281474976710656
   \<and> (cx example_spot, cy example_spot) = (125, 225)
   \<and> fsub (cx example_spot) (fdiv (width example_tip) 2) = 65
   \<and> fadd (cy example_spot) (r example_spot) = 25375 / 100
   \<and> example_vwDP 100 = 360
   \<and> getSpotlightTipStyles example_vwDP example_spot example_step example_tip =
     Some \<lparr>left = 65, top' = 254,
           marginTop = Some (DimString ''2%''), marginBottom = None,
           marginLeft = None, marginRight = None\<rparr>
   \<and> map_option left
        (getSpotlightTipStyles example_vwDP example_spot
           (example_step\<lparr>alignTo := Some CENTER\<rparr>) example_tip) = Some 120
   \<and> map_option top'
        (getSpotlightTipStyles example_vwDP wide_spot example_step example_tip) = Some 62"
proof -
  consider "al = None" | "al = Some SPOT" | "al = Some CENTER"
    by (cases al) (auto intro: Align.exhaust)
  then have rows:
    "getSpotlightTipStyles vwDP sp (stp\<lparr>alignTo := al, position := Enumerated p\<rparr>) tip =
      (case p of
         BOTTOM \<Rightarrow> Some
           \<lparr>left = Math_round
              (if al = None \<or> al = Some SPOT
               then fsub (fadd (x sp) (fdiv (width sp) 2)) (fdiv (width tip) 2)
               else fdiv (fsub (vwDP 100) (width tip)) 2),
            top' = Math_round (fadd (fadd (y sp) (fdiv (height sp) 2))
              (fmul (fdiv (max (width sp) (height sp)) 2) (fl (115 / 100)))),
            marginTop = Some (DimString ''2%''), marginBottom = None,
            marginLeft = None, marginRight = None\<rparr>
       | TOP \<Rightarrow> Some
           \<lparr>left = Math_round
              (if al = None \<or> al = Some SPOT
               then fsub (fadd (x sp) (fdiv (width sp) 2)) (fdiv (width tip) 2)
               else fdiv (fsub (vwDP 100) (width tip)) 2),
            top' = Math_round (fsub (fsub (fadd (y sp) (fdiv (height sp) 2))
              (fmul (fdiv (max (width sp) (height sp)) 2) (fl (115 / 100)))) (height tip)),
            marginTop = None, marginBottom = Some (DimString ''2%''),
            marginLeft = None, marginRight = None\<rparr>
       | LEFT \<Rightarrow> Some
           \<lparr>left = Math_round (fsub (fsub (fadd (x sp) (fdiv (width sp) 2))
              (fmul (fdiv (max (width sp) (height sp)) 2) (fl (115 / 100)))) (width tip)),
            top' = Math_round (fsub (fadd (y sp) (fdiv (height sp) 2)) (fdiv (height tip) 2)),
            marginTop = None, marginBottom = None,
            marginLeft = None, marginRight = Some (DimString ''2%'')\<rparr>
       | RIGHT \<Rightarrow> Some
           \<lparr>left = Math_round (fadd (fadd (x sp) (fdiv (width sp) 2))
              (fmul (fdiv (max (width sp) (height sp)) 2) (fl (115 / 100)))),
            top' = Math_round (fsub (fadd (y sp) (fdiv (height sp) 2)) (fdiv (height tip) 2)),
            marginTop = None, marginBottom = None,
            marginLeft = Some (DimString ''2%''), marginRight = None\<rparr>)" for p
    by cases
      (cases p; simp add: getSpotlightTipStyles_def align_of_def r_def cx_def cy_def
        Math_max_def)+
  have centre: "map_option left
        (getSpotlightTipStyles example_vwDP example_spot
           (example_step\<lparr>alignTo := Some CENTER\<rparr>) example_tip) = Some 120"
    by (simp add: getSpotlightTipStyles_def align_of_def example_step_def example_tip_def
        example_vwDP_def example_arith round_eval)
  have wide_geometry: "r wide_spot = 8092405580431359 / 140737488355328" "cy wide_spot = 5"
    by (simp_all add: r_def cy_def wide_spot_def fl_eval)
  have wide_sum: "fadd 5 (8092405580431359 / 140737488355328)
      = 8796093022207999 / 140737488355328"
    by (simp add: fl_eval)
  have wide: "map_option top'
        (getSpotlightTipStyles example_vwDP wide_spot example_step example_tip) = Some 62"
    by (simp add: getSpotlightTipStyles_def example_step_fields wide_geometry wide_sum
        round_eval)
  have pre: "fsub (cx example_spot) (fdiv (width example_tip) 2) = 65"
    "fadd (cy example_spot) (r example_spot) = 25375 / 100"
    "example_vwDP 100 = 360"
    by (simp_all add: center_example_spot r_example_spot example_tip_def example_arith
        example_vwDP_def)
  have centre_example: "(cx example_spot, cy example_spot) = (125, 225)"
    by (simp add: center_example_spot)
  show ?thesis
    apply (intro conjI)
    subgoal using rows [of BOTTOM] rows [of TOP] rows [of LEFT] rows [of RIGHT]
      by (simp add: Let_def)
    subgoal by (rule r_example_spot)
    subgoal by (rule centre_example)
    subgoal by (rule pre)
    subgoal by (rule pre)
    subgoal by (rule pre)
    subgoal by (rule example_spotlight_style)
    subgoal by (rule centre)
    subgoal by (rule wide)
    done
qed

text \<open>
  The claim C3 as stated fails in its example: for the spot 50 by 50 the radius computed by
  the overlay is the double product of 25 and 1.15, which is 28.749999999999996 and not
  28.75.
\<close>

theorem spotlight_example_radius:
  "r example_spot = 8092405580431359 / 281474976710656 \<and> r example_spot \<noteq> 2875 / 100"
  by (simp add: r_example_spot)

text \<open>
  C4 (as amended). The placement of the tip around the rectangle follows the table of the
  rectangle policy for every spot, border width, size of the tip and alignment, with the
  margin 10, where \<open>rectCenter\<close> is the centre of the rectangle rounded to the nearest
  integer before it is used:
  \<open>rectCenter = (round(rectX + rectWidth/2), round(rectY + rectHeight/2))\<close>. Each entry of
  the table is computed in double arithmetic, in the order written, and is the value that
  is rounded. At the bottom, left is \<open>rectCenter.x - tipW/2\<close> when aligned to the spot and
  \<open>(W - tipW)/2\<close> otherwise, top is \<open>rectY + rectHeight\<close>, with the margin 10 on the side
  of the spot; at the top, the same left and top \<open>rectY - tipH - 10\<close>; on the left, left is
  \<open>rectX - tipW\<close> and top \<open>rectCenter.y - tipH/2\<close>; on the right, left is
  \<open>rectX + rectWidth\<close> and top \<open>rectCenter.y - tipH/2\<close>. For the spot 50 by 50 at
  (100, 200) and the tip 120 by 40 at the bottom, a border width of 5 gives left 65 and top
  255, and the alignment to the centre of a viewport 360 wide gives left 120; for a spot at
  \<open>x = 19.9\<close>, a border width of 0.2 and a tip 16.2 wide on the left, left is 4.
\<close>

theorem rectangle_tip_placement:
  "(let rect_x = fsub (x sp) bw;
        rect_y = fsub (y sp) bw;
        rect_width = fadd (width sp) (fmul 2 bw);
        rect_height = fadd (height sp) (fmul 2 bw);
        center_x = Math_round (fadd rect_x (fdiv rect_width 2));
        center_y = Math_round (fadd rect_y (fdiv rect_height 2));
        lft = (if al = None \<or> al = Some SPOT then fsub center_x (fdiv (width tip) 2)
               else fdiv (fsub (vwDP 100) (width tip)) 2);
        props = Some \<lparr>borderWidth = Some bw, horizontalRadius = hr, verticalRadius = vr\<rparr>
    in getRectangleTipStyles vwDP sp
           (stp\<lparr>alignTo := al, position := Enumerated BOTTOM, shapeProperties := props\<rparr>) tip =
         Some \<lparr>left = Math_round lft, top' = Math_round (fadd rect_y rect_height),
               marginTop = Some (DimNumber 10), marginBottom = None,
               marginLeft = None, marginRight = None\<rparr>
       \<and> getRectangleTipStyles vwDP sp
           (stp\<lparr>alignTo := al, position := Enumerated TOP, shapeProperties := props\<rparr>) tip =
         Some \<lparr>left = Math_round lft,
               top' = Math_round (fsub (fsub rect_y (height tip)) 10),
               marginTop = None, marginBottom = Some (DimNumber 10),
               marginLeft = None, marginRight = None\<rparr>
       \<and> getRectangleTipStyles vwDP sp
           (stp\<lparr>alignTo := al, position := Enumerated LEFT, shapeProperties := props\<rparr>) tip =
         Some \<lparr>left = Math_round (fsub rect_x (width tip)),
               top' = Math_round (fsub center_y (fdiv (height tip) 2)),
               marginTop = None, marginBottom = None,
               marginLeft = None, marginRight = Some (DimNumber 10)\<rparr>
       \<and> getRectangleTipStyles vwDP sp
           (stp\<lparr>alignTo := al, position := Enumerated RIGHT, shapeProperties := props\<rparr>) tip =
         Some \<lparr>left = Math_round (fadd rect_x rect_width),
               top' = Math_round (fsub center_y (fdiv (height tip) 2)),
               marginTop = None, marginBottom = None,
               marginLeft = Some (DimNumber 10), marginRight = None\<rparr>)
   \<and> getRectangleTipStyles example_vwDP example_spot
        (example_step\<lparr>shapeProperties :=
           Some \<lparr>borderWidth = Some 5, horizontalRadius = None, verticalRadius = None\<rparr>\<rparr>)
        example_tip =
     Some \<lparr>left = 65, top' = 255, marginTop = Some (DimNumber 10), marginBottom = None,
           marginLeft = None, marginRight = None\<rparr>
   \<and> map_option left
        (getRectangleTipStyles example_vwDP example_spot
           (example_step\<lparr>alignTo := Some CENTER\<rparr>) example_tip) = Some 120
   \<and> map_option left
        (getRectangleTipStyles example_vwDP decimal_spot decimal_step decimal_tip) = Some 4"
proof -
  consider "al = None" | "al = Some SPOT" | "al = Some CENTER"
    by (cases al) (auto intro: Align.exhaust)
  then have rows:
    "getRectangleTipStyles vwDP sp
       (stp\<lparr>alignTo := al, position := Enumerated p,
            shapeProperties := Some \<lparr>borderWidth = Some bw, horizontalRadius = hr,
                                     verticalRadius = vr\<rparr>\<rparr>) tip =
      (case p of
         BOTTOM \<Rightarrow> Some
           \<lparr>left = Math_round
              (if al = None \<or> al = Some SPOT
               then fsub (Math_round (fadd (fsub (x sp) bw)
                                        (fdiv (fadd (width sp) (fmul 2 bw)) 2)))
                      (fdiv (width tip) 2)
               else fdiv (fsub (vwDP 100) (width tip)) 2),
            top' = Math_round (fadd (fsub (y sp) bw) (fadd (height sp) (fmul 2 bw))),
            marginTop = Some (DimNumber 10), marginBottom = None,
            marginLeft = None, marginRight = None\<rparr>
       | TOP \<Rightarrow> Some
           \<lparr>left = Math_round
              (if al = None \<or> al = Some SPOT
               then fsub (Math_round (fadd (fsub (x sp) bw)
                                        (fdiv (fadd (width sp) (fmul 2 bw)) 2)))
                      (fdiv (width tip) 2)
               else fdiv (fsub (vwDP 100) (width tip)) 2),
            top' = Math_round (fsub (fsub (fsub (y sp) bw) (height tip)) 10),
            marginTop = None, marginBottom = Some (DimNumber 10),
            marginLeft = None, marginRight = None\<rparr>
       | LEFT \<Rightarrow> Some
           \<lparr>left = Math_round (fsub (fsub (x sp) bw) (width tip)),
            top' = Math_round
              (fsub (Math_round (fadd (fsub (y sp) bw)
                                   (fdiv (fadd (height sp) (fmul 2 bw)) 2)))
                 (fdiv (height tip) 2)),
            marginTop = None, marginBottom = None,
            marginLeft = None, marginRight = Some (DimNumber 10)\<rparr>
       | RIGHT \<Rightarrow> Some
           \<lparr>left = Math_round (fadd (fsub (x sp) bw) (fadd (width sp) (fmul 2 bw))),
            top' = Math_round
              (fsub (Math_round (fadd (fsub (y sp) bw)
                                   (fdiv (fadd (height sp) (fmul 2 bw)) 2)))
                 (fdiv (height tip) 2)),
            marginTop = None, marginBottom = None,
            marginLeft = Some (DimNumber 10), marginRight = None\<rparr>)" for p
    by cases
      (cases p; simp add: getRectangleTipStyles_def Let_def step_defs geometry_defs)+
  have border_geometry: "rectX example_spot 5 = 95" "rectY example_spot 5 = 195"
    "rectWidth example_spot 5 = 60" "rectHeight example_spot 5 = 60"
    by (simp_all add: geometry_defs example_spot_def fl_eval)
  have border_arith: "fadd 95 (fdiv 60 2) = 125" "fadd 195 (fdiv 60 2) = 225"
    "fadd 195 60 = 255"
    by (simp_all add: fl_eval)
  have border: "getRectangleTipStyles example_vwDP example_spot
        (example_step\<lparr>shapeProperties :=
           Some \<lparr>borderWidth = Some 5, horizontalRadius = None, verticalRadius = None\<rparr>\<rparr>)
        example_tip =
     Some \<lparr>left = 65, top' = 255, marginTop = Some (DimNumber 10), marginBottom = None,
           marginLeft = None, marginRight = None\<rparr>"
    by (simp add: getRectangleTipStyles_def step_defs example_step_def border_geometry
        border_arith example_tip_def example_arith round_eval)
  have centre: "map_option left
        (getRectangleTipStyles example_vwDP example_spot
           (example_step\<lparr>alignTo := Some CENTER\<rparr>) example_tip) = Some 120"
    by (simp add: getRectangleTipStyles_def step_defs example_step_def example_rect
        example_tip_def example_vwDP_def example_arith round_eval)
  have decimal_geometry:
    "rectX decimal_spot (fl (1 / 5)) = 5545057041199923 / 281474976710656"
    by (simp add: geometry_defs decimal_spot_def fl_eval)
  have decimal_arith:
    "fsub (5545057041199923 / 281474976710656) (fl (81 / 5)) = 7 / 2"
    by (simp add: fl_eval)
  have decimal: "map_option left
        (getRectangleTipStyles example_vwDP decimal_spot decimal_step decimal_tip) = Some 4"
    by (simp add: getRectangleTipStyles_def Let_def step_defs decimal_step_def
        decimal_geometry decimal_tip_def decimal_arith round_eval)
  show ?thesis
    apply (intro conjI)
    subgoal using rows [of BOTTOM] rows [of TOP] rows [of LEFT] rows [of RIGHT]
      by (simp add: Let_def)
    subgoal by (rule border)
    subgoal by (rule centre)
    subgoal by (rule decimal)
    done
qed

text \<open>
  The claim C4 as stated, with \<open>rectCenter\<close> the centre \<open>rectX + rectWidth/2\<close> of the
  rectangle, fails: for the spot 21 wide at \<open>x = 100\<close> and a tip 41 wide at the bottom,
  aligned to the spot, the table gives left \<open>110.5 - 20.5 = 90\<close>, an integer, and the
  function returns 91, the centre having been rounded to 111 first.
\<close>

theorem rectangle_tip_center_rounded_first:
  "map_option left (getRectangleTipStyles example_vwDP odd_spot example_step odd_tip) = Some 91
   \<and> align_of example_step = SPOT \<and> position example_step = Enumerated BOTTOM
   \<and> borderWidth_of example_step = 0
   \<and> rectX odd_spot 0 + rectWidth odd_spot 0 / 2 = 221 / 2
   \<and> (rectX odd_spot 0 + rectWidth odd_spot 0 / 2) - width odd_tip / 2 = 90
   \<and> Math_round ((rectX odd_spot 0 + rectWidth odd_spot 0 / 2) - width odd_tip / 2) = 90"
proof -
  have geometry: "rectX odd_spot 0 = 100" "rectWidth odd_spot 0 = 21"
    "rectY odd_spot 0 = 0" "rectHeight odd_spot 0 = 20"
    by (simp_all add: geometry_defs odd_spot_def fl_eval)
  have arith: "fadd 100 (fdiv 21 2) = 221 / 2" "fsub 111 (fdiv 41 2) = 181 / 2"
    "fadd 0 (fdiv 20 2) = 10" "fadd 0 20 = 20"
    by (simp_all add: fl_eval)
  have "map_option left (getRectangleTipStyles example_vwDP odd_spot example_step odd_tip)
      = Some 91"
    by (simp add: getRectangleTipStyles_def example_step_fields geometry odd_tip_def arith
        round_eval)
  then show ?thesis
    by (simp add: example_step_fields geometry odd_tip_def round_eval)
qed

section \<open>Rounding\<close>

text \<open>
  C5 (as amended). The left and top values produced by both placement policies are
  integers, each being a result of \<open>Math.round\<close>. The coordinates of the mask are handed
  over as they are computed, without rounding: the fading circle is drawn with \<open>r\<close>, \<open>cx\<close>
  and \<open>cy\<close>, the fading rectangle with \<open>rectX\<close>, \<open>rectY\<close>, \<open>rectWidth\<close> and
  \<open>rectHeight\<close>.
\<close>

theorem tip_coordinates_integral:
  "(getSpotlightTipStyles vwDP sp stp tip = Some s \<longrightarrow> left s \<in> \<int> \<and> top' s \<in> \<int>)
   \<and> (getRectangleTipStyles vwDP sp stp tip = Some s' \<longrightarrow> left s' \<in> \<int> \<and> top' s' \<in> \<int>)
   \<and> MaskElement_of sp (stp\<lparr>shape := Some SPOTLIGHT, motion := Some FADING\<rparr>) st
       = AnimatedCircle (r sp) (cx sp) (cy sp) (Some (componentOpacity st))
   \<and> MaskElement_of sp (stp\<lparr>shape := Some RECTANGLE, motion := Some FADING\<rparr>) st
       = AnimatedRect (rectX sp (borderWidth_of stp)) (rectY sp (borderWidth_of stp))
           (Some (componentOpacity st))
           (rectWidth sp (borderWidth_of stp)) (rectHeight sp (borderWidth_of stp))
           (horizontalRadius_of stp) (verticalRadius_of stp)"
proof -
  have spotlight: "left s \<in> \<int> \<and> top' s \<in> \<int>"
    if "getSpotlightTipStyles vwDP sp stp tip = Some s"
    using that
    by (auto simp add: getSpotlightTipStyles_def Let_def Math_round_Ints
        split: position_value.splits Position.splits)
  have rectangle: "left s' \<in> \<int> \<and> top' s' \<in> \<int>"
    if "getRectangleTipStyles vwDP sp stp tip = Some s'"
    using that
    by (auto simp add: getRectangleTipStyles_def Let_def Math_round_Ints
        split: position_value.splits Position.splits)
  have mask: "MaskElement_of sp (stp\<lparr>shape := Some SPOTLIGHT, motion := Some FADING\<rparr>) st
       = AnimatedCircle (r sp) (cx sp) (cy sp) (Some (componentOpacity st))"
    "MaskElement_of sp (stp\<lparr>shape := Some RECTANGLE, motion := Some FADING\<rparr>) st
       = AnimatedRect (rectX sp (borderWidth_of stp)) (rectY sp (borderWidth_of stp))
           (Some (componentOpacity st))
           (rectWidth sp (borderWidth_of stp)) (rectHeight sp (borderWidth_of stp))
           (horizontalRadius_of stp) (verticalRadius_of stp)"
    by (simp_all add: MaskElement_of_def step_defs)
  from spotlight rectangle mask show ?thesis by blast
qed

theorem tip_coordinates_integral_witness:
  "getSpotlightTipStyles example_vwDP example_spot example_step example_tip =
     Some \<lparr>left = 65, top' = 254, marginTop = Some (DimString ''2%''), marginBottom = None,
           marginLeft = None, marginRight = None\<rparr>
   \<and> getRectangleTipStyles example_vwDP example_spot example_step example_tip =
     Some \<lparr>left = 65, top' = 250, marginTop = Some (DimNumber 10), marginBottom = None,
           marginLeft = None, marginRight = None\<rparr>
   \<and> (65 :: number) \<in> \<int> \<and> (254 :: number) \<in> \<int> \<and> (250 :: number) \<in> \<int>"
proof -
  have a: "getSpotlightTipStyles example_vwDP example_spot example_step example_tip =
     Some \<lparr>left = 65, top' = 254, marginTop = Some (DimString ''2%''), marginBottom = None,
           marginLeft = None, marginRight = None\<rparr>"
    by (rule example_spotlight_style)
  have b: "getRectangleTipStyles example_vwDP example_spot example_step example_tip =
     Some \<lparr>left = 65, top' = 250, marginTop = Some (DimNumber 10), marginBottom = None,
           marginLeft = None, marginRight = None\<rparr>"
    by (rule example_rectangle_style)
  from a b tip_coordinates_integral [of example_vwDP example_spot example_step example_tip
      "\<lparr>left = 65, top' = 254, marginTop = Some (DimString ''2%''), marginBottom = None,
           marginLeft = None, marginRight = None\<rparr>"
      "\<lparr>left = 65, top' = 250, marginTop = Some (DimNumber 10), marginBottom = None,
           marginLeft = None, marginRight = None\<rparr>"]
  show ?thesis by simp
qed

text \<open>
  The claim C5 as stated fails for the mask: with the fading motion the circle of the spot
  50 by 50 at (100, 200) is drawn with the radius 28.749999999999996, which is not an
  integer.
\<close>

theorem mask_coordinates_not_rounded:
  "map_sum id (map_option maskElement)
      (TourOverlay example_vwDP example_vhDP example_props example_state)
     = Inr (Some (AnimatedCircle (8092405580431359 / 281474976710656) 125 225 (Some 0)))
   \<and> (8092405580431359 / 281474976710656 :: number) \<notin> \<int>"
proof -
  have "(8092405580431359 / 281474976710656 :: number) \<notin> \<int>"
    by (simp add: frac_eq_0_iff [symmetric] frac_def floor_numeral_quotient)
  moreover have "map_sum id (map_option maskElement)
      (TourOverlay example_vwDP example_vhDP example_props example_state)
     = Inr (Some (AnimatedCircle (8092405580431359 / 281474976710656) 125 225 (Some 0)))"
    by (simp add: example_overlay)
  ultimately show ?thesis by (rule conjI [rotated])
qed

section \<open>Backdrop press\<close>

text \<open>
  C6. Whenever the overlay renders, a press on the backdrop does nothing when
  \<open>shouldContinueOnBackdropPress\<close> is false or omitted (false is its default); when it is
  true, the press calls \<open>stop()\<close> if the current index is \<open>steps.length - 1\<close> and \<open>next()\<close>
  otherwise.
\<close>

theorem backdrop_press:
  assumes "TourOverlay vwDP vhDP props st = Inr (Some rd)"
  shows "\<exists>c. current (tour props) = Some c
     \<and> onPress rd =
        (if shouldContinueOnBackdropPress props = None
            \<or> shouldContinueOnBackdropPress props = Some False then []
         else if int c = int (length (steps (tour props))) - 1 then [Call_stop]
         else [Call_next])"
  using assms
  by (auto simp add: TourOverlay_def Let_def backdropPressHandler_def isLastStep_def
      split: option.splits)

theorem backdrop_press_witness:
  "TourOverlay example_vwDP example_vhDP example_props example_state =
     Inr (Some \<lparr>onPress = [Call_stop], viewBox = (360, 640),
                maskElement =
                  AnimatedCircle (8092405580431359 / 281474976710656) 125 225 (Some 0),
                rect_fill = ColorString ''black'', rect_opacity = OpacityNumber (45 / 100),
                tipView_style = (None, 0), tipView_children = ()\<rparr>)
   \<and> (\<exists>c. current (tour example_props) = Some c
        \<and> [Call_stop] =
          (if shouldContinueOnBackdropPress example_props = None
              \<or> shouldContinueOnBackdropPress example_props = Some False then []
           else if int c = int (length (steps (tour example_props))) - 1 then [Call_stop]
           else [Call_next]))"
proof -
  have a: "TourOverlay example_vwDP example_vhDP example_props example_state =
     Inr (Some \<lparr>onPress = [Call_stop], viewBox = (360, 640),
                maskElement =
                  AnimatedCircle (8092405580431359 / 281474976710656) 125 225 (Some 0),
                rect_fill = ColorString ''black'', rect_opacity = OpacityNumber (45 / 100),
                tipView_style = (None, 0), tipView_children = ()\<rparr>)"
    by (rule example_overlay)
  from backdrop_press [OF a] a show ?thesis by simp
qed

section \<open>Hiding the tip\<close>

text \<open>
  C7 (as amended). The promise returned by \<open>hideTip\<close> is resolved when the fade-out
  animation ends finished, and is rejected, without a reason, when it ends without
  finishing, that is when it is cancelled.
\<close>

theorem hideTip_settlement:
  "(hideTip res = Resolved) = finished res \<and> (hideTip res = Rejected) = (\<not> finished res)"
  by (simp add: hideTip_def)

text \<open>
  The claim C7 as stated fails: for an animation that ends with \<open>finished\<close> false the
  promise is rejected.
\<close>

theorem hideTip_cancelled_rejects:
  "\<not> finished \<lparr>finished = False\<rparr> \<and> hideTip \<lparr>finished = False\<rparr> = Rejected"
  by (simp add: hideTip_def)

section \<open>Positions outside the enumeration\<close>

text \<open>
  C8. For each of the four positions \<open>TOP\<close>, \<open>BOTTOM\<close>, \<open>LEFT\<close> and \<open>RIGHT\<close> both
  placement functions return a style; for a position that is none of the four both return
  \<open>undefined\<close>. So a step whose position is one of the four never reaches the undefined
  result.
\<close>

theorem placement_defined:
  "(\<exists>s. getSpotlightTipStyles vwDP sp (stp\<lparr>position := Enumerated p\<rparr>) tip = Some s)
   \<and> (\<exists>s. getRectangleTipStyles vwDP sp (stp\<lparr>position := Enumerated p\<rparr>) tip = Some s)
   \<and> getSpotlightTipStyles vwDP sp (stp\<lparr>position := Unenumerated\<rparr>) tip = None
   \<and> getRectangleTipStyles vwDP sp (stp\<lparr>position := Unenumerated\<rparr>) tip = None
   \<and> (getSpotlightTipStyles vwDP sp stp tip = None) = (position stp = Unenumerated)
   \<and> (getRectangleTipStyles vwDP sp stp tip = None) = (position stp = Unenumerated)"
  by (cases p)
    (simp_all add: getSpotlightTipStyles_def getRectangleTipStyles_def Let_def
      split: position_value.splits Position.splits)

section \<open>Defaults of a step\<close>

text \<open>
  C9. A step that omits the attribute is shown with the shape \<open>SPOTLIGHT\<close>, the alignment
  \<open>SPOT\<close>, the motion \<open>SLIDING\<close> and the shape properties \<open>borderWidth\<close>,
  \<open>horizontalRadius\<close> and \<open>verticalRadius\<close> all 0 (also when only some of the three are
  omitted); a step that gives a value is shown with that value. The overlay and the two
  placement functions cannot tell an omitted attribute from its default.
\<close>

theorem step_defaults:
  "shape_of (stp\<lparr>shape := None\<rparr>) = SPOTLIGHT
   \<and> shape_of (stp\<lparr>shape := Some s\<rparr>) = s
   \<and> align_of (stp\<lparr>alignTo := None\<rparr>) = SPOT
   \<and> align_of (stp\<lparr>alignTo := Some a\<rparr>) = a
   \<and> motion_of (stp\<lparr>motion := None\<rparr>) = SLIDING
   \<and> motion_of (stp\<lparr>motion := Some m\<rparr>) = m
   \<and> (borderWidth_of (stp\<lparr>shapeProperties := None\<rparr>),
      horizontalRadius_of (stp\<lparr>shapeProperties := None\<rparr>),
      verticalRadius_of (stp\<lparr>shapeProperties := None\<rparr>)) = (0, 0, 0)
   \<and> (borderWidth_of (stp\<lparr>shapeProperties := Some (ps\<lparr>borderWidth := None\<rparr>)\<rparr>) = 0
      \<and> horizontalRadius_of (stp\<lparr>shapeProperties := Some (ps\<lparr>horizontalRadius := None\<rparr>)\<rparr>) = 0
      \<and> verticalRadius_of (stp\<lparr>shapeProperties := Some (ps\<lparr>verticalRadius := None\<rparr>)\<rparr>) = 0)
   \<and> (borderWidth_of (stp\<lparr>shapeProperties := Some (ps\<lparr>borderWidth := Some bw\<rparr>)\<rparr>) = bw
      \<and> horizontalRadius_of (stp\<lparr>shapeProperties := Some (ps\<lparr>horizontalRadius := Some hr\<rparr>)\<rparr>) = hr
      \<and> verticalRadius_of (stp\<lparr>shapeProperties := Some (ps\<lparr>verticalRadius := Some vr\<rparr>)\<rparr>) = vr)
   \<and> TourOverlay vwDP vhDP props
        (st\<lparr>tourStep := Some (stp\<lparr>motion := None, shape := None, shapeProperties := None\<rparr>)\<rparr>)
     = TourOverlay vwDP vhDP props
        (st\<lparr>tourStep := Some (stp\<lparr>motion := Some SLIDING, shape := Some SPOTLIGHT,
            shapeProperties := Some \<lparr>borderWidth = Some 0, horizontalRadius = Some 0,
                                     verticalRadius = Some 0\<rparr>\<rparr>)\<rparr>)
   \<and> getSpotlightTipStyles vwDP sp (stp\<lparr>alignTo := None\<rparr>) tip
     = getSpotlightTipStyles vwDP sp (stp\<lparr>alignTo := Some SPOT\<rparr>) tip
   \<and> getRectangleTipStyles vwDP sp (stp\<lparr>alignTo := None, shapeProperties := None\<rparr>) tip
     = getRectangleTipStyles vwDP sp
         (stp\<lparr>alignTo := Some SPOT,
              shapeProperties := Some \<lparr>borderWidth = Some 0, horizontalRadius = Some 0,
                                       verticalRadius = Some 0\<rparr>\<rparr>) tip"
proof -
  have overlay: "TourOverlay vwDP vhDP props
        (st\<lparr>tourStep := Some (stp\<lparr>motion := None, shape := None, shapeProperties := None\<rparr>)\<rparr>)
     = TourOverlay vwDP vhDP props
        (st\<lparr>tourStep := Some (stp\<lparr>motion := Some SLIDING, shape := Some SPOTLIGHT,
            shapeProperties := Some \<lparr>borderWidth = Some 0, horizontalRadius = Some 0,
                                     verticalRadius = Some 0\<rparr>\<rparr>)\<rparr>)"
    by (simp add: TourOverlay_def Let_def MaskElement_of_def step_defs split: option.splits)
  have tips: "getSpotlightTipStyles vwDP sp (stp\<lparr>alignTo := None\<rparr>) tip
     = getSpotlightTipStyles vwDP sp (stp\<lparr>alignTo := Some SPOT\<rparr>) tip"
    "getRectangleTipStyles vwDP sp (stp\<lparr>alignTo := None, shapeProperties := None\<rparr>) tip
     = getRectangleTipStyles vwDP sp
         (stp\<lparr>alignTo := Some SPOT,
              shapeProperties := Some \<lparr>borderWidth = Some 0, horizontalRadius = Some 0,
                                       verticalRadius = Some 0\<rparr>\<rparr>) tip"
    by (simp_all add: getSpotlightTipStyles_def getRectangleTipStyles_def step_defs)
  from overlay tips show ?thesis
    by (simp add: step_defs)
qed

section \<open>Nothing to show\<close>

text \<open>
  C10. When the tour has no spot or no current index the overlay returns \<open>null\<close>: the
  result holds no mask, no style of the tip and no content rendered by the step, and no
  error is raised, whatever the state of the hooks.
\<close>

theorem overlay_renders_nothing:
  assumes "spot (tour props) = None \<or> current (tour props) = None"
  shows "TourOverlay vwDP vhDP props st = Inr None"
  using assms
  by (auto simp add: TourOverlay_def Let_def split: option.splits)

theorem overlay_renders_nothing_witness:
  "(spot (tour (example_props\<lparr>tour := (tour example_props)\<lparr>spot := None\<rparr>\<rparr>)) = None
      \<or> current (tour (example_props\<lparr>tour := (tour example_props)\<lparr>spot := None\<rparr>\<rparr>)) = None)
   \<and> TourOverlay example_vwDP example_vhDP
        (example_props\<lparr>tour := (tour example_props)\<lparr>spot := None\<rparr>\<rparr>) example_state = Inr None
   \<and> TourOverlay example_vwDP example_vhDP
        (example_props\<lparr>tour := (tour example_props)\<lparr>current := None\<rparr>\<rparr>) example_state = Inr None"
  using overlay_renders_nothing
      [of "example_props\<lparr>tour := (tour example_props)\<lparr>spot := None\<rparr>\<rparr>"
          example_vwDP example_vhDP example_state]
    overlay_renders_nothing
      [of "example_props\<lparr>tour := (tour example_props)\<lparr>current := None\<rparr>\<rparr>"
          example_vwDP example_vhDP example_state]
  by simp

end
